theory Spec2Isabelle
  imports Main
begin

section \<open>Strings\<close>

text \<open>
  Go strings are byte sequences; they are modelled as \<^typ>\<open>string\<close>, one \<^typ>\<open>char\<close> per
  byte. The single quote and the newline of the Go literals are written by their codes.
\<close>

definition squote :: char where
  "squote = CHR 0x27"

definition newline :: char where
  "newline = CHR 0x0A"

text \<open>
  \<open>strings.ToUpper\<close>, on ASCII: a byte in \<open>a..z\<close> is moved to \<open>A..Z\<close>, every other byte
  is kept. The program applies it to the entries of \<open>githubContextKeys\<close> only, which are
  ASCII.
\<close>

definition toUpperChar :: "char \<Rightarrow> char" where
  "toUpperChar c =
     (case map_of (zip ''abcdefghijklmnopqrstuvwxyz'' ''ABCDEFGHIJKLMNOPQRSTUVWXYZ'') c of
        Some u \<Rightarrow> u
      | None \<Rightarrow> c)"

definition ToUpper :: "string \<Rightarrow> string" where
  "ToUpper s = map toUpperChar s"

text \<open>\<open>strings.Join(elems, sep)\<close>.\<close>

fun Join :: "string list \<Rightarrow> string \<Rightarrow> string" where
  "Join [] sep = []"
| "Join [x] sep = x"
| "Join (x # y # ys) sep = x @ sep @ Join (y # ys) sep"

text \<open>The verb \<open>%d\<close> of \<open>fmt.Sprintf\<close> on a non-negative integer: decimal, no padding.\<close>

definition digitChar :: "nat \<Rightarrow> char" where
  "digitChar d = ''0123456789'' ! d"

fun formatInt :: "nat \<Rightarrow> string" where
  "formatInt n = (if n < 10 then [digitChar n] else formatInt (n div 10) @ [digitChar (n mod 10)])"

declare formatInt.simps [simp del]

section \<open>Data model\<close>

record Settings =
  PublicToken :: string
  DaggerVersion :: string
  NoTraces :: bool
  StopEngine :: bool
  AsJson :: bool
  Runner :: string

text \<open>
  A Go slice field that the code compares with \<open>nil\<close> (\<open>SparseCheckout\<close>) is an
  \<open>option\<close>: \<open>None\<close> is the nil slice, \<open>Some []\<close> the empty one.
\<close>

record Pipeline =
  Module :: string
  Command :: string
  Secrets :: "string list"
  SparseCheckout :: "string list option"
  Settings :: Settings

text \<open>
  The four trigger structs are declared outside \<open>main.go\<close>; the code here reads their
  \<open>Pipeline\<close> field and calls their \<open>Config\<close> method. One record stands for them, the
  trigger's own conditions kept as an opaque field.
\<close>

record 'c Trigger =
  Pipeline :: Pipeline
  Conditions :: 'c

record 'c Gha =
  PushTriggers :: "'c Trigger list"
  PullRequestTriggers :: "'c Trigger list"
  DispatchTriggers :: "'c Trigger list"
  IssueCommentTriggers :: "'c Trigger list"
  Gha_Settings :: Settings

text \<open>
  An error value: the one built by \<open>errors.New\<close> carries its message, the one returned
  by the container run is whatever the engine reports.
\<close>

datatype 'x error = ErrorString string | SyncError 'x

section \<open>The pipeline factory\<close>

definition pipeline ::
  "'c Gha \<Rightarrow> string \<Rightarrow> string \<Rightarrow> string \<Rightarrow> string list \<Rightarrow> string list option \<Rightarrow> Pipeline" where
  "pipeline m command module runner secrets sparseCheckout =
     (let p = \<lparr> Module = module, Command = command, Secrets = secrets,
                 SparseCheckout = sparseCheckout, Settings = Gha_Settings m \<rparr>
      in if runner \<noteq> [] then p\<lparr> Settings := (Settings p)\<lparr> Runner := runner \<rparr> \<rparr> else p)"

section \<open>Secret names\<close>

text \<open>
  The regular expression \<open>^[a-zA-Z0-9_]+$\<close>. In Go's syntax \<open>$\<close> without the
  multi-line flag matches at the end of the text only, so the expression matches exactly
  the non-empty strings over the class.
\<close>

definition nameChars :: string where
  "nameChars = ''abcdefghijklmnopqrstuvwxyz'' @ ''ABCDEFGHIJKLMNOPQRSTUVWXYZ'' @ ''0123456789'' @ ''_''"

definition validName :: "string \<Rightarrow> bool" where
  "validName s = (s \<noteq> [] \<and> list_all (\<lambda>c. c \<in> set nameChars) s)"

definition invalidSecretName :: "string \<Rightarrow> 'x error" where
  "invalidSecretName secretName =
     ErrorString (''invalid secret name: '' @ [squote] @ secretName @ [squote] @
                  '' must contain only alphanumeric characters and underscores'')"

fun checkSecretNames_loop :: "string list \<Rightarrow> 'x error option" where
  "checkSecretNames_loop [] = None"
| "checkSecretNames_loop (secretName # rest) =
     (if \<not> validName secretName then Some (invalidSecretName secretName)
      else checkSecretNames_loop rest)"

definition checkSecretNames :: "Pipeline \<Rightarrow> 'x error option" where
  "checkSecretNames p = checkSecretNames_loop (Secrets p)"

section \<open>Pre-flight validation\<close>

text \<open>The \<open>script\<close> that \<open>checkCommandAndModule\<close> hands to \<open>bash -c\<close>.\<close>

definition checkCommandAndModule_script :: "Pipeline \<Rightarrow> string" where
  "checkCommandAndModule_script p =
     (let script = ''dagger call'';
          script = (if Module p \<noteq> []
                    then script @ '' -m '' @ [squote] @ Module p @ [squote] @ '' ''
                    else script);
          script = script @ Command p @ '' --help''
      in script)"

text \<open>
  The container run (\<open>Wolfi().Container(...)...WithExec([bash, -c, script]).Sync(ctx)\<close>, on
  the repository mounted at \<open>/src\<close>) belongs to the engine: it is a parameter \<open>sync\<close>, which
  takes the script and the state of the outside world and returns the error of the run,
  if any, with the world after it.
\<close>

type_synonym ('x, 'w) sync = "string \<Rightarrow> 'w \<Rightarrow> 'x option \<times> 'w"

definition checkCommandAndModule :: "('x, 'w) sync \<Rightarrow> Pipeline \<Rightarrow> 'w \<Rightarrow> 'x error option \<times> 'w" where
  "checkCommandAndModule sync p w =
     (case sync (checkCommandAndModule_script p) w of
        (err, w') \<Rightarrow> (map_option SyncError err, w'))"

text \<open>\<open>Pipeline.Check\<close>.\<close>

definition Check :: "('x, 'w) sync \<Rightarrow> Pipeline \<Rightarrow> 'w \<Rightarrow> 'x error option \<times> 'w" where
  "Check sync p w =
     (case checkSecretNames p of
        Some err \<Rightarrow> (Some err, w)
      | None \<Rightarrow>
          (case checkCommandAndModule sync p w of
             (Some err, w') \<Rightarrow> (Some err, w')
           | (None, w') \<Rightarrow> (None, w')))"

text \<open>One \<open>for _, t := range ...\<close> loop of \<open>Gha.Check\<close>, with its early return.\<close>

fun Check_loop :: "('x, 'w) sync \<Rightarrow> 'c Trigger list \<Rightarrow> 'w \<Rightarrow> 'x error option \<times> 'w" where
  "Check_loop sync [] w = (None, w)"
| "Check_loop sync (t # ts) w =
     (case Check sync (Pipeline t) w of
        (Some err, w') \<Rightarrow> (Some err, w')
      | (None, w') \<Rightarrow> Check_loop sync ts w')"

text \<open>\<open>Gha.Check\<close>: the receiver is returned as it is, with the error.\<close>

definition Gha_Check :: "('x, 'w) sync \<Rightarrow> 'c Gha \<Rightarrow> 'w \<Rightarrow> ('c Gha \<times> 'x error option) \<times> 'w" where
  "Gha_Check sync m w =
     (case Check_loop sync (PushTriggers m) w of
        (Some err, w1) \<Rightarrow> ((m, Some err), w1)
      | (None, w1) \<Rightarrow>
     (case Check_loop sync (PullRequestTriggers m) w1 of
        (Some err, w2) \<Rightarrow> ((m, Some err), w2)
      | (None, w2) \<Rightarrow>
     (case Check_loop sync (DispatchTriggers m) w2 of
        (Some err, w3) \<Rightarrow> ((m, Some err), w3)
      | (None, w3) \<Rightarrow>
     (case Check_loop sync (IssueCommentTriggers m) w3 of
        (Some err, w4) \<Rightarrow> ((m, Some err), w4)
      | (None, w4) \<Rightarrow> ((m, None), w4)))))"

section \<open>Generated files\<close>

text \<open>\<open>fmt.Sprintf("%s<kind>-%d.yml", prefix, n)\<close>, for each of the four format strings.\<close>

definition Sprintf_filename :: "string \<Rightarrow> string \<Rightarrow> nat \<Rightarrow> string" where
  "Sprintf_filename prefix kind n = prefix @ kind @ ''-'' @ formatInt n @ ''.yml''"

text \<open>
  The trigger's \<open>Config(filename, asJson)\<close> method and the directory operations
  \<open>dag.Directory()\<close> and \<open>dir.WithDirectory(".", sub)\<close> are declared outside \<open>main.go\<close>:
  they are the parameters \<open>config\<close> (told which of the four trigger types it is called
  on), \<open>emptyDir\<close> and \<open>withDirectory\<close>.
\<close>

datatype TriggerKind = Push | PullRequest | Dispatch | IssueComment

text \<open>One \<open>for i, t := range ...\<close> loop of \<open>Gha.Config\<close>; \<open>i\<close> is the index of the head.\<close>

fun Config_loop ::
  "('d \<Rightarrow> 'd \<Rightarrow> 'd) \<Rightarrow> ('c Trigger \<Rightarrow> string \<Rightarrow> bool \<Rightarrow> 'd) \<Rightarrow> string \<Rightarrow> string \<Rightarrow> bool \<Rightarrow>
   nat \<Rightarrow> 'c Trigger list \<Rightarrow> 'd \<Rightarrow> 'd" where
  "Config_loop withDirectory config prefix kind asJson i [] dir = dir"
| "Config_loop withDirectory config prefix kind asJson i (t # ts) dir =
     (let filename = Sprintf_filename prefix kind (i + 1);
          dir = withDirectory dir (config t filename asJson)
      in Config_loop withDirectory config prefix kind asJson (i + 1) ts dir)"

definition Config ::
  "'d \<Rightarrow> ('d \<Rightarrow> 'd \<Rightarrow> 'd) \<Rightarrow> (TriggerKind \<Rightarrow> 'c Trigger \<Rightarrow> string \<Rightarrow> bool \<Rightarrow> 'd) \<Rightarrow>
   'c Gha \<Rightarrow> string \<Rightarrow> 'd" where
  "Config emptyDir withDirectory config m prefix =
     (let asJson = AsJson (Gha_Settings m);
          dir = emptyDir;
          dir = Config_loop withDirectory (config Push) prefix ''push'' asJson 0
                  (PushTriggers m) dir;
          dir = Config_loop withDirectory (config PullRequest) prefix ''pr'' asJson 0
                  (PullRequestTriggers m) dir;
          dir = Config_loop withDirectory (config Dispatch) prefix ''dispatch'' asJson 0
                  (DispatchTriggers m) dir;
          dir = Config_loop withDirectory (config IssueComment) prefix ''issue-comment'' asJson 0
                  (IssueCommentTriggers m) dir
      in dir)"

text \<open>
  A directory that only records what it was asked to hold: the calls of the triggers'
  \<open>Config\<close>, in the order they were merged.
\<close>

definition recordedConfig :: "'c Gha \<Rightarrow> string \<Rightarrow> (TriggerKind \<times> 'c Trigger \<times> string \<times> bool) list" where
  "recordedConfig m prefix =
     Config [] (\<lambda>dir sub. dir @ sub) (\<lambda>kind t filename asJson. [(kind, t, filename, asJson)]) m prefix"

section \<open>Steps\<close>

text \<open>
  \<open>JobStep\<close>, \<open>Job\<close>, \<open>Workflow\<close> and \<open>WorkflowTriggers\<close> are declared outside
  \<open>main.go\<close>; the records have the fields that \<open>main.go\<close> sets. A field the code leaves
  out has Go's zero value: the empty string, the nil map (\<open>None\<close>).
\<close>

record JobStep =
  Name :: string
  ID :: string
  Uses :: string
  Shell :: string
  Run :: string
  With :: "(string \<rightharpoonup> string) option"
  Env :: "(string \<rightharpoonup> string) option"

definition JobStep_zero :: JobStep where
  "JobStep_zero = \<lparr> Name = [], ID = [], Uses = [], Shell = [], Run = [], With = None, Env = None \<rparr>"

record Job =
  RunsOn :: string
  Steps :: "JobStep list"
  Outputs :: "string \<rightharpoonup> string"

datatype WorkflowTriggers = WorkflowTriggers_zero

record Workflow =
  Workflow_Name :: string
  On :: WorkflowTriggers
  Jobs :: "string \<rightharpoonup> Job"

definition checkoutStep :: "Pipeline \<Rightarrow> JobStep" where
  "checkoutStep p =
     (let step = JobStep_zero\<lparr> Name := ''Checkout'', Uses := ''actions/checkout@v4'' \<rparr>
      in case SparseCheckout p of
           None \<Rightarrow> step
         | Some paths \<Rightarrow>
             (let sparseCheckout = paths @ [''dagger.json'', ''.dagger'', ''dagger'', ''ci'']
              in step\<lparr> With := Some [''sparse-checkout'' \<mapsto> Join sparseCheckout [newline]] \<rparr>))"

text \<open>
  \<open>bashStep\<close> reads \<open>scripts/<id>.sh\<close> from the module's own source, here the map \<open>files\<close>
  from paths to contents, and panics when the read fails.
\<close>

datatype panic = Panic string

definition bashStep :: "(string \<rightharpoonup> string) \<Rightarrow> string \<Rightarrow> (string \<rightharpoonup> string) option \<Rightarrow> panic + JobStep" where
  "bashStep files step_id env =
     (let filename = ''scripts/'' @ step_id @ ''.sh''
      in case files filename of
           None \<Rightarrow> Inl (Panic filename)
         | Some script \<Rightarrow>
             Inr (JobStep_zero\<lparr> Name := filename, ID := step_id, Shell := ''bash'',
                                 Run := script, Env := env \<rparr>))"

definition warmEngineStep :: "(string \<rightharpoonup> string) \<Rightarrow> Pipeline \<Rightarrow> panic + JobStep" where
  "warmEngineStep files p = bashStep files ''warm-engine'' None"

definition installDaggerStep :: "(string \<rightharpoonup> string) \<Rightarrow> Pipeline \<Rightarrow> panic + JobStep" where
  "installDaggerStep files p =
     bashStep files ''install-dagger'' (Some [''DAGGER_VERSION'' \<mapsto> DaggerVersion (Settings p)])"

definition stopEngineStep :: "(string \<rightharpoonup> string) \<Rightarrow> Pipeline \<Rightarrow> panic + JobStep" where
  "stopEngineStep files p = bashStep files ''scripts/stop-engine.sh'' None"

subsection \<open>The environment of the execute step\<close>

definition githubContextKeys :: "string list" where
  "githubContextKeys =
     [''action'', ''action_path'', ''action_ref'', ''action_repository'', ''action_status'',
      ''actor'', ''actor_id'', ''api_url'', ''base_ref'', ''env'', ''event_name'', ''event_path'',
      ''graphql_url'', ''head_ref'', ''job'', ''path'', ''ref'', ''ref_name'', ''ref_protected'',
      ''ref_type'', ''repository'', ''repository_id'', ''repository_owner'',
      ''repository_owner_id'', ''repositoryUrl'', ''retention_days'', ''run_id'', ''run_number'',
      ''run_attempt'', ''secret_source'', ''server_url'', ''sha'', ''token'', ''triggering_actor'',
      ''workflow'', ''workflow_ref'', ''workflow_sha'', ''workspace'']"

text \<open>
  \<open>callDaggerStep\<close> fills the map \<open>env\<close> by five groups of assignments \<open>env[k] = v\<close>, one
  after the other. Each group is the list of its assignments, in the order the code makes
  them.
\<close>

definition commandEntries :: "Pipeline \<Rightarrow> (string \<times> string) list" where
  "commandEntries p = [(''COMMAND'', ''dagger call -q '' @ Command p)]"

definition secretEntries :: "Pipeline \<Rightarrow> (string \<times> string) list" where
  "secretEntries p =
     map (\<lambda>secretName. (secretName, ''${{ secrets.'' @ secretName @ '' }}'')) (Secrets p)"

definition moduleEntries :: "Pipeline \<Rightarrow> (string \<times> string) list" where
  "moduleEntries p = (if Module p \<noteq> [] then [(''DAGGER_MODULE'', Module p)] else [])"

definition cloudTokenEntries :: "Pipeline \<Rightarrow> (string \<times> string) list" where
  "cloudTokenEntries p =
     (if \<not> NoTraces (Settings p) then
        (if PublicToken (Settings p) \<noteq> [] then
           [(''DAGGER_CLOUD_TOKEN'', PublicToken (Settings p)),
            (''_EXPERIMENTAL_DAGGER_CLOUD_TOKEN'', PublicToken (Settings p))]
         else
           [(''DAGGER_CLOUD_TOKEN'', ''${{ secrets.DAGGER_CLOUD_TOKEN }}''),
            (''_EXPERIMENTAL_DAGGER_CLOUD_TOKEN'', ''${{ secrets.DAGGER_CLOUD_TOKEN }}'')])
      else [])"

definition githubEntries :: "(string \<times> string) list" where
  "githubEntries =
     map (\<lambda>key. (''GITHUB_'' @ ToUpper key, ''${{ github.'' @ key @ '' }}'')) githubContextKeys"

text \<open>The assignments \<open>env[k] = v\<close> of a list, made in order on the map \<open>env\<close>.\<close>

definition assign :: "(string \<times> string) list \<Rightarrow> (string \<rightharpoonup> string) \<Rightarrow> (string \<rightharpoonup> string)" where
  "assign entries env = fold (\<lambda>(k, v) e. e(k \<mapsto> v)) entries env"

definition callDaggerStep_env :: "Pipeline \<Rightarrow> (string \<rightharpoonup> string)" where
  "callDaggerStep_env p =
     (let env = Map.empty;
          env = assign (commandEntries p) env;
          env = assign (secretEntries p) env;
          env = assign (moduleEntries p) env;
          env = assign (cloudTokenEntries p) env;
          env = assign githubEntries env
      in env)"

definition callDaggerStep :: "(string \<rightharpoonup> string) \<Rightarrow> Pipeline \<Rightarrow> panic + JobStep" where
  "callDaggerStep files p = bashStep files ''exec'' (Some (callDaggerStep_env p))"

section \<open>Compilation\<close>

text \<open>
  \<open>asWorkflow\<close>. The steps of the slice literal are built left to right, so the first
  panic is the one that escapes.
\<close>

definition asWorkflow :: "(string \<rightharpoonup> string) \<Rightarrow> Pipeline \<Rightarrow> panic + Workflow" where
  "asWorkflow files p =
     (case installDaggerStep files p of Inl e \<Rightarrow> Inl e | Inr install \<Rightarrow>
     (case warmEngineStep files p of Inl e \<Rightarrow> Inl e | Inr warm \<Rightarrow>
     (case callDaggerStep files p of Inl e \<Rightarrow> Inl e | Inr call \<Rightarrow>
     (let steps = [checkoutStep p, install, warm, call] in
      case (if StopEngine (Settings p)
            then (case stopEngineStep files p of Inl e \<Rightarrow> Inl e | Inr stop \<Rightarrow> Inr (steps @ [stop]))
            else Inr steps) of
        Inl e \<Rightarrow> Inl e
      | Inr steps \<Rightarrow>
          Inr \<lparr> Workflow_Name = Command p,
                On = WorkflowTriggers_zero,
                Jobs = [''dagger'' \<mapsto>
                  \<lparr> RunsOn = Runner (Settings p),
                    Steps = steps,
                    Outputs = [''stdout'' \<mapsto> ''${{ steps.exec.outputs.stdout }}'',
                               ''stderr'' \<mapsto> ''${{ steps.exec.outputs.stderr }}''] \<rparr>] \<rparr>))))"

section \<open>Results\<close>

subsection \<open>Secret name validation\<close>






subsection \<open>The pipeline factory\<close>

text \<open>
  C10. The pipeline built by the factory carries the aggregator's settings: the fields
  \<open>PublicToken\<close>, \<open>DaggerVersion\<close>, \<open>NoTraces\<close>, \<open>StopEngine\<close> and \<open>AsJson\<close> are
  the aggregator's, and \<open>Runner\<close> is the override when the override is non-empty and the
  aggregator's runner when it is empty; with an empty override the whole settings record
  is the aggregator's.
\<close>

theorem pipeline_settings_frame:
  "PublicToken (Settings (pipeline m command module runner secrets sparse)) = PublicToken (Gha_Settings m) \<and>
   DaggerVersion (Settings (pipeline m command module runner secrets sparse)) = DaggerVersion (Gha_Settings m) \<and>
   NoTraces (Settings (pipeline m command module runner secrets sparse)) = NoTraces (Gha_Settings m) \<and>
   StopEngine (Settings (pipeline m command module runner secrets sparse)) = StopEngine (Gha_Settings m) \<and>
   AsJson (Settings (pipeline m command module runner secrets sparse)) = AsJson (Gha_Settings m) \<and>
   Runner (Settings (pipeline m command module runner secrets sparse)) =
     (if runner \<noteq> [] then runner else Runner (Gha_Settings m)) \<and>
   (runner = [] \<longrightarrow> Settings (pipeline m command module runner secrets sparse) = Gha_Settings m)"
  by (simp add: pipeline_def Let_def)

theorem pipeline_settings_frame_witness:
  "Runner (Settings (pipeline
      \<lparr> PushTriggers = [], PullRequestTriggers = [], DispatchTriggers = [],
        IssueCommentTriggers = ([] :: unit Trigger list),
        Gha_Settings = \<lparr> PublicToken = ''tok'', DaggerVersion = ''latest'', NoTraces = False,
          StopEngine = True, AsJson = False, Runner = ''ubuntu-latest'' \<rparr> \<rparr>
      ''build'' ''mod'' ''macos-latest'' [] None)) = ''macos-latest'' \<and>
   Settings (pipeline
      \<lparr> PushTriggers = [], PullRequestTriggers = [], DispatchTriggers = [],
        IssueCommentTriggers = ([] :: unit Trigger list),
        Gha_Settings = \<lparr> PublicToken = ''tok'', DaggerVersion = ''latest'', NoTraces = False,
          StopEngine = True, AsJson = False, Runner = ''ubuntu-latest'' \<rparr> \<rparr>
      ''build'' ''mod'' [] [] None)
    = \<lparr> PublicToken = ''tok'', DaggerVersion = ''latest'', NoTraces = False,
          StopEngine = True, AsJson = False, Runner = ''ubuntu-latest'' \<rparr>"
  using
    pipeline_settings_frame [of
      "\<lparr> PushTriggers = [], PullRequestTriggers = [], DispatchTriggers = [],
        IssueCommentTriggers = ([] :: unit Trigger list),
        Gha_Settings = \<lparr> PublicToken = ''tok'', DaggerVersion = ''latest'', NoTraces = False,
          StopEngine = True, AsJson = False, Runner = ''ubuntu-latest'' \<rparr> \<rparr>"
      "''build''" "''mod''" "''macos-latest''" "[]" None]
    pipeline_settings_frame [of
      "\<lparr> PushTriggers = [], PullRequestTriggers = [], DispatchTriggers = [],
        IssueCommentTriggers = ([] :: unit Trigger list),
        Gha_Settings = \<lparr> PublicToken = ''tok'', DaggerVersion = ''latest'', NoTraces = False,
          StopEngine = True, AsJson = False, Runner = ''ubuntu-latest'' \<rparr> \<rparr>"
      "''build''" "''mod''" "[]" "[]" None]
  by simp

subsection \<open>The environment of the execute step\<close>

lemma assign_Nil: "assign [] env = env"
  by (simp add: assign_def)

lemma assign_append: "assign (xs @ ys) env = assign ys (assign xs env)"
  by (simp add: assign_def)

lemma assign_snoc: "assign (xs @ [(k, v)]) env = (assign xs env)(k \<mapsto> v)"
  by (simp add: assign_def)

lemma assign_other: "k \<notin> fst ` set xs \<Longrightarrow> assign xs env k = env k"
proof (induction xs rule: rev_induct)
  case Nil
  show ?case by (simp add: assign_Nil)
next
  case (snoc x xs)
  obtain k' v' where x: "x = (k', v')" by (cases x)
  from snoc.prems have "k' \<noteq> k" and "k \<notin> fst ` set xs" by (auto simp: x)
  with snoc.IH show ?case by (simp add: x assign_snoc)
qed

lemma assign_member:
  assumes "(k, v) \<in> set xs" and "\<forall>v'. (k, v') \<in> set xs \<longrightarrow> v' = v"
  shows "assign xs env k = Some v"
  using assms
proof (induction xs rule: rev_induct)
  case Nil
  then show ?case by simp
next
  case (snoc x xs)
  obtain k' v' where x: "x = (k', v')" by (cases x)
  show ?case
  proof (cases "k' = k")
    case True
    with snoc.prems(2) have "v' = v" by (simp add: x)
    with True show ?thesis by (simp add: x assign_snoc)
  next
    case False
    with snoc.prems(1) have mem: "(k, v) \<in> set xs" by (simp add: x)
    from snoc.prems(2) have "\<forall>v'. (k, v') \<in> set xs \<longrightarrow> v' = v" by simp
    from snoc.IH [OF mem this] False show ?thesis by (simp add: x assign_snoc)
  qed
qed

lemma assign_member_distinct:
  "distinct (map fst xs) \<Longrightarrow> (k, v) \<in> set xs \<Longrightarrow> assign xs env k = Some v"
  by (rule assign_member) (auto dest: eq_key_imp_eq_value)

lemma githubEntries_keys:
  "map fst githubEntries =
    [''GITHUB_ACTION'', ''GITHUB_ACTION_PATH'', ''GITHUB_ACTION_REF'',
     ''GITHUB_ACTION_REPOSITORY'', ''GITHUB_ACTION_STATUS'', ''GITHUB_ACTOR'',
     ''GITHUB_ACTOR_ID'', ''GITHUB_API_URL'', ''GITHUB_BASE_REF'', ''GITHUB_ENV'',
     ''GITHUB_EVENT_NAME'', ''GITHUB_EVENT_PATH'', ''GITHUB_GRAPHQL_URL'', ''GITHUB_HEAD_REF'',
     ''GITHUB_JOB'', ''GITHUB_PATH'', ''GITHUB_REF'', ''GITHUB_REF_NAME'',
     ''GITHUB_REF_PROTECTED'', ''GITHUB_REF_TYPE'', ''GITHUB_REPOSITORY'',
     ''GITHUB_REPOSITORY_ID'', ''GITHUB_REPOSITORY_OWNER'', ''GITHUB_REPOSITORY_OWNER_ID'',
     ''GITHUB_REPOSITORYURL'', ''GITHUB_RETENTION_DAYS'', ''GITHUB_RUN_ID'',
     ''GITHUB_RUN_NUMBER'', ''GITHUB_RUN_ATTEMPT'', ''GITHUB_SECRET_SOURCE'',
     ''GITHUB_SERVER_URL'', ''GITHUB_SHA'', ''GITHUB_TOKEN'', ''GITHUB_TRIGGERING_ACTOR'',
     ''GITHUB_WORKFLOW'', ''GITHUB_WORKFLOW_REF'', ''GITHUB_WORKFLOW_SHA'',
     ''GITHUB_WORKSPACE'']"
  by (simp add: githubEntries_def githubContextKeys_def ToUpper_def toUpperChar_def)

lemma githubEntries_distinct: "distinct (map fst githubEntries)"
  unfolding githubEntries_keys by simp

lemma callDaggerStep_env_eq:
  "callDaggerStep_env p =
     assign (commandEntries p @ secretEntries p @ moduleEntries p @ cloudTokenEntries p @ githubEntries)
       Map.empty"
  by (simp add: callDaggerStep_env_def Let_def assign_append)

lemma github_key_not_in:
  "''COMMAND'' \<notin> fst ` set githubEntries"
  "''DAGGER_MODULE'' \<notin> fst ` set githubEntries"
  "''DAGGER_CLOUD_TOKEN'' \<notin> fst ` set githubEntries"
  "''_EXPERIMENTAL_DAGGER_CLOUD_TOKEN'' \<notin> fst ` set githubEntries"
  unfolding set_map [symmetric] githubEntries_keys by simp_all

lemma githubEntries_member:
  "key \<in> set githubContextKeys \<Longrightarrow>
   (''GITHUB_'' @ ToUpper key, ''${{ github.'' @ key @ '' }}'') \<in> set githubEntries"
  by (auto simp: githubEntries_def)

lemma callDaggerStep_env_github:
  assumes "key \<in> set githubContextKeys"
  shows "callDaggerStep_env p (''GITHUB_'' @ ToUpper key) = Some (''${{ github.'' @ key @ '' }}'')"
  unfolding callDaggerStep_env_def Let_def
  by (rule assign_member_distinct [OF githubEntries_distinct githubEntries_member [OF assms]])

lemma bashStep_ok:
  "files (''scripts/'' @ step_id @ ''.sh'') = Some script \<Longrightarrow>
   bashStep files step_id env =
     Inr (JobStep_zero\<lparr> Name := ''scripts/'' @ step_id @ ''.sh'', ID := step_id, Shell := ''bash'',
                         Run := script, Env := env \<rparr>)"
  by (simp add: bashStep_def)

end
